theory Spec2Isabelle
  imports Main "HOL-Library.Sublist" "HOL-Library.Char_ord" "HOL-Library.List_Lexorder"
    "HOL-Library.Word"
begin

section \<open>The VM dashboard controller of \<^verbatim>\<open>src/index.tsx\<close>\<close>

text \<open>
  The component \<^verbatim>\<open>App\<close> owns six state cells (\<^verbatim>\<open>vms\<close>, \<^verbatim>\<open>searchTerm\<close>,
  \<^verbatim>\<open>statusFilter\<close>, \<^verbatim>\<open>zoneFilter\<close>, \<^verbatim>\<open>isLoading\<close>, \<^verbatim>\<open>error\<close>), two derived
  views (\<^verbatim>\<open>allZones\<close>, \<^verbatim>\<open>filteredVms\<close>) and three asynchronous operations
  (\<^verbatim>\<open>fetchVms\<close>, \<^verbatim>\<open>handleTogglePower\<close>, \<^verbatim>\<open>handleConnect\<close>).

  The name of a machine and the search term are lower-cased by the name filter, and
  lower-casing looks at letters beyond Latin-1 and at their neighbours: these two
  strings are lists of UTF-16 code units. The other strings are only compared,
  concatenated and sorted; they are lists of \<^typ>\<open>char\<close>, read as the code points
  0 to 255.
\<close>

subsection \<open>Types\<close>

type_synonym code_unit = "16 word"

type_synonym ustring = "code_unit list"

text \<open>The code units of a string of code points 0 to 255.\<close>

definition utf16 :: "string \<Rightarrow> ustring" where
  "utf16 s = map of_char s"

datatype VMStatus = Running | Stopped | Provisioning

text \<open>At run time a \<^verbatim>\<open>VMStatus\<close> is the string of its literal type.\<close>

fun status_string :: "VMStatus \<Rightarrow> string" where
  "status_string Running = ''Running''"
| "status_string Stopped = ''Stopped''"
| "status_string Provisioning = ''Provisioning''"

record VM =
  id_vm :: string
  name :: ustring
  zoneRegion :: string
  ipExternal :: "string option"
  ipInternal :: string
  machineType :: string
  status :: VMStatus

subsection \<open>String primitives of the language\<close>

text \<open>
  \<^verbatim>\<open>hay.includes(needle)\<close>: the needle occurs at some position of the haystack;
  the empty needle occurs everywhere, also in the empty string.
\<close>

fun starts_with :: "ustring \<Rightarrow> ustring \<Rightarrow> bool" where
  "starts_with hay [] = True"
| "starts_with [] (n # ns) = False"
| "starts_with (h # hs) (n # ns) = (h = n \<and> starts_with hs ns)"

fun includes_str :: "ustring \<Rightarrow> ustring \<Rightarrow> bool" where
  "includes_str [] needle = (needle = [])"
| "includes_str (h # hs) needle = (starts_with (h # hs) needle \<or> includes_str hs needle)"

text \<open>
  \<^verbatim>\<open>String.prototype.toLowerCase\<close> is the lower-casing of the Unicode standard. Its
  case table is part of the language, not of the repository, and it is not a map
  over the code units: the capital sigma becomes the final small sigma or the
  medial one depending on its neighbours, and some letters become two code units.
  \<^verbatim>\<open>filteredVms\<close> below therefore takes the function as its first argument.

  \<open>lower_latin_greek\<close> is that function on the strings made of Basic Latin
  characters (below U+0080) and of the Greek letters U+0391 to U+03A9 and U+03B1 to
  U+03C9; code units outside these ranges are not in its table and a string that has
  one is outside its domain. A capital letter moves up by 32. The capital sigma
  U+03A3 becomes the final sigma U+03C2 when a cased letter comes before it and none
  comes after it, case-ignorable characters skipped on both sides, and the sigma
  U+03C3 otherwise. In these ranges the cased characters are the letters and the
  case-ignorable ones are the apostrophe, the full stop, the colon, the circumflex
  and the grave accent.
\<close>

definition is_cased :: "code_unit \<Rightarrow> bool" where
  "is_cased c =
     ((0x41 \<le> c \<and> c \<le> 0x5A) \<or> (0x61 \<le> c \<and> c \<le> 0x7A)
      \<or> (0x391 \<le> c \<and> c \<le> 0x3A1) \<or> (0x3A3 \<le> c \<and> c \<le> 0x3A9)
      \<or> (0x3B1 \<le> c \<and> c \<le> 0x3C9))"

definition is_case_ignorable :: "code_unit \<Rightarrow> bool" where
  "is_case_ignorable c = (c \<in> {0x27, 0x2E, 0x3A, 0x5E, 0x60})"

text \<open>The first character that is not case-ignorable exists and is cased.\<close>

fun cased_comes_first :: "ustring \<Rightarrow> bool" where
  "cased_comes_first [] = False"
| "cased_comes_first (c # cs) =
     (if is_case_ignorable c then cased_comes_first cs else is_cased c)"

text \<open>
  One code unit, given the code units seen so far (the nearest first) and the ones
  still to come.
\<close>

definition lower_unit :: "ustring \<Rightarrow> code_unit \<Rightarrow> ustring \<Rightarrow> code_unit" where
  "lower_unit seen c rest =
     (if c = 0x3A3
      then (if cased_comes_first seen \<and> \<not> cased_comes_first rest then 0x3C2 else 0x3C3)
      else if (0x41 \<le> c \<and> c \<le> 0x5A) \<or> (0x391 \<le> c \<and> c \<le> 0x3A1)
              \<or> (0x3A4 \<le> c \<and> c \<le> 0x3A9)
      then c + 0x20 else c)"

fun lower_from :: "ustring \<Rightarrow> ustring \<Rightarrow> ustring" where
  "lower_from seen [] = []"
| "lower_from seen (c # cs) = lower_unit seen c cs # lower_from (c # seen) cs"

definition lower_latin_greek :: "ustring \<Rightarrow> ustring" where
  "lower_latin_greek s = lower_from [] s"

subsection \<open>Derived views\<close>

text \<open>
  \<^verbatim>\<open>new Set(xs)\<close> keeps the first occurrence of each value, in insertion order, and
  \<^verbatim>\<open>Array.from\<close> lists the set in that order.
\<close>

definition Set_add :: "'a list \<Rightarrow> 'a \<Rightarrow> 'a list" where
  "Set_add s x = (if x \<in> set s then s else s @ [x])"

definition new_Set :: "'a list \<Rightarrow> 'a list" where
  "new_Set xs = foldl Set_add [] xs"

text \<open>
  \<^verbatim>\<open>Array.from(new Set(vms.map(vm => vm.zoneRegion))).sort()\<close>. The default
  comparison of \<^verbatim>\<open>sort\<close> orders strings by their code units, which is the
  lexicographic order of \<^typ>\<open>string\<close>.
\<close>

definition allZones :: "VM list \<Rightarrow> string list" where
  "allZones vms = sort (new_Set (map zoneRegion vms))"

text \<open>
  The three chained \<^verbatim>\<open>filter\<close> calls of \<^verbatim>\<open>filteredVms\<close>; the first argument is the
  language's \<^verbatim>\<open>toLowerCase\<close>.
\<close>

definition filteredVms ::
  "(ustring \<Rightarrow> ustring) \<Rightarrow> VM list \<Rightarrow> ustring \<Rightarrow> string \<Rightarrow> string \<Rightarrow> VM list" where
  "filteredVms toLowerCase vms searchTerm statusFilter zoneFilter =
     filter (\<lambda>vm. zoneFilter = ''Todas'' \<or> zoneRegion vm = zoneFilter)
       (filter (\<lambda>vm. statusFilter = ''Todos'' \<or> status_string (status vm) = statusFilter)
         (filter (\<lambda>vm. includes_str (toLowerCase (name vm)) (toLowerCase searchTerm)) vms))"

subsection \<open>Case-insensitive containment, as the specification words it\<close>

text \<open>
  Two code units are the same letter up to case when they are equal, or one is a
  capital letter A to Z and the other one its small letter. This relation is given
  by the pairs themselves, not by a lower-casing function. Outside the Basic Latin
  letters it relates a code unit to itself only, which every notion of case
  insensitivity does at least.
\<close>

definition same_letter :: "code_unit \<Rightarrow> code_unit \<Rightarrow> bool" where
  "same_letter c d =
     (c = d \<or> (0x41 \<le> c \<and> c \<le> 0x5A \<and> d = c + 0x20)
            \<or> (0x41 \<le> d \<and> d \<le> 0x5A \<and> c = d + 0x20))"

definition same_ignoring_case :: "ustring \<Rightarrow> ustring \<Rightarrow> bool" where
  "same_ignoring_case s t = list_all2 same_letter s t"

text \<open>Some contiguous piece of the haystack is the needle up to the case of its letters.\<close>

definition contains_ignoring_case :: "ustring \<Rightarrow> ustring \<Rightarrow> bool" where
  "contains_ignoring_case hay needle =
     (\<exists>front piece back. hay = front @ piece @ back \<and> same_ignoring_case piece needle)"

text \<open>The specification's predicate: the three conditions, conjoined.\<close>

definition passes_filters :: "ustring \<Rightarrow> string \<Rightarrow> string \<Rightarrow> VM \<Rightarrow> bool" where
  "passes_filters searchTerm statusFilter zoneFilter vm =
     (contains_ignoring_case (name vm) searchTerm
      \<and> (statusFilter = ''Todos'' \<or> status_string (status vm) = statusFilter)
      \<and> (zoneFilter = ''Todas'' \<or> zoneRegion vm = zoneFilter))"

text \<open>
  Strings of Basic Latin characters, and what the language's lower-casing does on
  them: the letters A to Z move up by 32, each on its own.
\<close>

definition basic_latin :: "ustring \<Rightarrow> bool" where
  "basic_latin s = list_all (\<lambda>c. c < 0x80) s"

definition lower_basic_latin :: "code_unit \<Rightarrow> code_unit" where
  "lower_basic_latin c = (if 0x41 \<le> c \<and> c \<le> 0x5A then c + 0x20 else c)"

definition lowers_basic_latin :: "(ustring \<Rightarrow> ustring) \<Rightarrow> bool" where
  "lowers_basic_latin lower = (\<forall>s. basic_latin s \<longrightarrow> lower s = map lower_basic_latin s)"

text \<open>The two machines of the specification's examples, and one with a Greek name.\<close>

definition web1 :: VM where
  "web1 = \<lparr>id_vm = ''1'', name = utf16 ''web-1'', zoneRegion = ''us-1'', ipExternal = None,
           ipInternal = ''10.0.0.1'', machineType = ''e2-micro'', status = Running\<rparr>"

definition web2 :: VM where
  "web2 = \<lparr>id_vm = ''2'', name = utf16 ''web-2'', zoneRegion = ''us-2'',
           ipExternal = Some ''34.1.2.3'', ipInternal = ''10.0.0.2'',
           machineType = ''e2-small'', status = Stopped\<rparr>"

text \<open>The name is capital alpha, capital sigma.\<close>

definition alpha_sigma :: VM where
  "alpha_sigma = \<lparr>id_vm = ''3'', name = [0x391, 0x3A3], zoneRegion = ''us-1'', ipExternal = None,
           ipInternal = ''10.0.0.3'', machineType = ''e2-micro'', status = Running\<rparr>"

subsection \<open>Values received from the backend\<close>

text \<open>
  A parsed JSON value: what \<^verbatim>\<open>await response.json()\<close> yields when the body is
  well-formed. \<^verbatim>\<open>JObj\<close> lists the properties of the parsed object, each name
  once. A number is a floating-point value; it is represented by what the
  operations can observe of it: whether it is zero, and the text the language prints
  for it.
\<close>

datatype number = Number (is_zero: bool) (printed: string)

datatype json =
  JNull | JBool bool | JNum number | JStr string | JArr "json list"
| JObj "(string \<times> json) list"

text \<open>A thrown value, as far as the handlers look at it: its \<^verbatim>\<open>message\<close>.\<close>

datatype exn = Exn (message: string)

text \<open>
  Reading one of the properties \<^verbatim>\<open>detail\<close>, \<^verbatim>\<open>mensaje\<close> or \<^verbatim>\<open>comando_ssh\<close>
  of a parsed value. On \<^verbatim>\<open>null\<close> the read throws a \<^verbatim>\<open>TypeError\<close>; an object gives
  the property or \<^verbatim>\<open>undefined\<close> (\<^term>\<open>None\<close>); a string, number, boolean or array
  has no property of these names and gives \<^verbatim>\<open>undefined\<close>.
\<close>

definition null_read_message :: "string \<Rightarrow> string" where
  "null_read_message prop =
     ''Cannot read properties of null (reading '' @ [CHR 0x27] @ prop @ [CHR 0x27] @ '')''"

fun property :: "json \<Rightarrow> string \<Rightarrow> exn + json option" where
  "property JNull prop = Inl (Exn (null_read_message prop))"
| "property (JObj kvs) prop = Inr (map_of kvs prop)"
| "property v prop = Inr None"

text \<open>
  Truthiness of a parsed value, as \<^verbatim>\<open>||\<close> tests it (\<^verbatim>\<open>undefined\<close> is falsy
  too, see \<open>not_ok_error\<close>).
\<close>

fun truthy :: "json \<Rightarrow> bool" where
  "truthy JNull = False"
| "truthy (JBool b) = b"
| "truthy (JNum n) = (\<not> is_zero n)"
| "truthy (JStr s) = (s \<noteq> [])"
| "truthy (JArr xs) = True"
| "truthy (JObj kvs) = True"

text \<open>Conversion to a string, as \<^verbatim>\<open>new Error(v)\<close> and a template literal do it.\<close>

fun join :: "string list \<Rightarrow> string" where
  "join [] = []"
| "join [s] = s"
| "join (s # t # ss) = s @ CHR '','' # join (t # ss)"

fun to_string :: "json \<Rightarrow> string" where
  "to_string JNull = ''null''"
| "to_string (JBool b) = (if b then ''true'' else ''false'')"
| "to_string (JNum n) = printed n"
| "to_string (JStr s) = s"
| "to_string (JArr xs) = join (map (\<lambda>x. if x = JNull then [] else to_string x) xs)"
| "to_string (JObj kvs) = ''[object Object]''"

definition template_string :: "json option \<Rightarrow> string" where
  "template_string v = (case v of None \<Rightarrow> ''undefined'' | Some x \<Rightarrow> to_string x)"

text \<open>\<^verbatim>\<open>a || b\<close> on strings: the empty string is falsy.\<close>

definition or_else :: "string \<Rightarrow> string \<Rightarrow> string" where
  "or_else a b = (if a \<noteq> [] then a else b)"

text \<open>
  What \<^verbatim>\<open>await response.json()\<close> does: it rejects with a \<^verbatim>\<open>SyntaxError\<close> when the
  body is not JSON, or yields the parsed value.
\<close>

datatype 'a body = Unparsable exn | Parsed 'a

text \<open>
  What \<^verbatim>\<open>await fetch(...)\<close> does: the promise rejects (no response was
  obtained), or a response arrives with \<^verbatim>\<open>response.ok\<close> true (status 2xx) or
  false. The body of an ok response has the type the code gives it; the body of
  any other response is read untyped, as \<^verbatim>\<open>errorData\<close>.
\<close>

datatype 'a fetched = Rejected exn | Ok_response "'a body" | Error_response "json body"

subsection \<open>State and effects\<close>

text \<open>
  What an operation does that can be observed from outside: the requests it issues,
  the dialogs and console lines it writes, and its calls of the state setters.
\<close>

datatype event =
  Fetch string string
| Alert string
| Console_error string exn
| Set_vms "VM list"
| Set_isLoading bool
| Set_error "string option"

record app_state =
  vms :: "VM list"
  searchTerm :: ustring
  statusFilter :: string
  zoneFilter :: string
  isLoading :: bool
  error :: "string option"
  events :: "event list"

definition emit :: "event \<Rightarrow> app_state \<Rightarrow> app_state" where
  "emit e s = s\<lparr>events := events s @ [e]\<rparr>"

definition setVms :: "VM list \<Rightarrow> app_state \<Rightarrow> app_state" where
  "setVms v s = emit (Set_vms v) (s\<lparr>vms := v\<rparr>)"

definition setIsLoading :: "bool \<Rightarrow> app_state \<Rightarrow> app_state" where
  "setIsLoading b s = emit (Set_isLoading b) (s\<lparr>isLoading := b\<rparr>)"

definition setError :: "string option \<Rightarrow> app_state \<Rightarrow> app_state" where
  "setError e s = emit (Set_error e) (s\<lparr>error := e\<rparr>)"

text \<open>The state of \<^verbatim>\<open>App\<close> before its first effect.\<close>

definition initial_state :: app_state where
  "initial_state = \<lparr>vms = [], searchTerm = [], statusFilter = ''Todos'', zoneFilter = ''Todas'',
                     isLoading = False, error = None, events = []\<rparr>"

subsection \<open>Operations\<close>

definition API_BASE_URL :: string where
  "API_BASE_URL = ''http://localhost:8000/api''"

text \<open>
  The branch \<^verbatim>\<open>if (!response.ok)\<close>, the same in the three operations:
  \<^verbatim>\<open>const errorData = await response.json(); throw new Error(errorData.detail || fallback)\<close>.
  It always throws; the result is the thrown value.
\<close>

definition not_ok_error :: "json body \<Rightarrow> string \<Rightarrow> exn" where
  "not_ok_error b fallback =
     (case b of
        Unparsable e \<Rightarrow> e
      | Parsed errorData \<Rightarrow>
          (case property errorData ''detail'' of
             Inl e \<Rightarrow> e
           | Inr detail \<Rightarrow>
               Exn (case detail of
                      None \<Rightarrow> fallback
                    | Some d \<Rightarrow> if truthy d then to_string d else fallback)))"

text \<open>
  \<^verbatim>\<open>fetchVms\<close> has two fallback messages: one for a response without a usable
  \<^verbatim>\<open>detail\<close>, one in the \<^verbatim>\<open>catch\<close> handler for a thrown value without message.
\<close>

definition fetch_fallback :: string where
  "fetch_fallback = ''Error al obtener las VMs del backend.''"

definition fetch_catch_fallback :: string where
  "fetch_catch_fallback = ''Error de red o del servidor al obtener VMs.''"

text \<open>The \<^verbatim>\<open>try\<close> block of \<^verbatim>\<open>fetchVms\<close>: \<^term>\<open>Inl\<close> is the value it throws.\<close>

definition fetchVms_try :: "VM list fetched \<Rightarrow> app_state \<Rightarrow> (exn + unit) \<times> app_state" where
  "fetchVms_try r s =
     (let s1 = emit (Fetch ''GET'' (API_BASE_URL @ ''/vms'')) s
      in case r of
           Rejected e \<Rightarrow> (Inl e, s1)
         | Error_response b \<Rightarrow> (Inl (not_ok_error b fetch_fallback), s1)
         | Ok_response b \<Rightarrow>
             (case b of
                Unparsable e \<Rightarrow> (Inl e, s1)
              | Parsed data \<Rightarrow> (Inr (), setVms data s1)))"

definition fetchVms_catch :: "exn \<Rightarrow> app_state \<Rightarrow> app_state" where
  "fetchVms_catch err s =
     setVms []
       (setError (Some (or_else (message err) fetch_catch_fallback))
          (emit (Console_error ''Error al obtener VMs:'' err) s))"

definition fetchVms :: "VM list fetched \<Rightarrow> app_state \<Rightarrow> app_state" where
  "fetchVms r s =
     (let s1 = setIsLoading True s;
          s2 = setError None s1;
          (res, s3) = fetchVms_try r s2;
          s4 = (case res of Inl err \<Rightarrow> fetchVms_catch err s3 | Inr u \<Rightarrow> s3)
      in setIsLoading False s4)"

text \<open>
  \<^verbatim>\<open>handleTogglePower\<close>. The first response answers the POST, the second one the
  GET of the refresh, if the refresh is reached.
\<close>

definition toggle_url :: "string \<Rightarrow> string \<Rightarrow> VMStatus \<Rightarrow> string" where
  "toggle_url vmName zone currentStatus =
     API_BASE_URL @ ''/vms/'' @ vmName @ ''/toggle_power?zone='' @ zone
       @ ''&current_status='' @ status_string currentStatus"

definition toggle_fallback :: "string \<Rightarrow> string" where
  "toggle_fallback vmName = ''Error al cambiar el estado de '' @ vmName @ ''.''"

definition toggle_done_message :: "string \<Rightarrow> string" where
  "toggle_done_message vmName =
     ''Operaci'' @ [CHR 0xF3] @ ''n de cambio de estado para '' @ vmName @ '' completada.''"

definition handleTogglePower_try ::
  "string \<Rightarrow> string \<Rightarrow> VMStatus \<Rightarrow> 'a fetched \<Rightarrow> VM list fetched \<Rightarrow> app_state
     \<Rightarrow> (exn + unit) \<times> app_state" where
  "handleTogglePower_try vmName zone currentStatus r refresh s =
     (let s1 = emit (Fetch ''POST'' (toggle_url vmName zone currentStatus)) s
      in case r of
           Rejected e \<Rightarrow> (Inl e, s1)
         | Error_response b \<Rightarrow> (Inl (not_ok_error b (toggle_fallback vmName)), s1)
         | Ok_response b \<Rightarrow>
             (Inr (), emit (Alert (toggle_done_message vmName)) (fetchVms refresh s1)))"

definition handleTogglePower_catch :: "string \<Rightarrow> exn \<Rightarrow> app_state \<Rightarrow> app_state" where
  "handleTogglePower_catch vmName err s =
     setError (Some (or_else (message err) (toggle_fallback vmName)))
       (emit (Console_error ''Error al cambiar el estado:'' err) s)"

definition handleTogglePower ::
  "string \<Rightarrow> string \<Rightarrow> VMStatus \<Rightarrow> 'a fetched \<Rightarrow> VM list fetched \<Rightarrow> app_state \<Rightarrow> app_state" where
  "handleTogglePower vmName zone currentStatus r refresh s =
     (let s1 = setIsLoading True s;
          s2 = setError None s1;
          (res, s3) = handleTogglePower_try vmName zone currentStatus r refresh s2;
          s4 = (case res of Inl err \<Rightarrow> handleTogglePower_catch vmName err s3 | Inr u \<Rightarrow> s3)
      in setIsLoading False s4)"

text \<open>\<^verbatim>\<open>handleConnect\<close>. An absent or empty \<^verbatim>\<open>ipExternal\<close> adds no query parameter.\<close>

definition connect_url :: "string \<Rightarrow> string \<Rightarrow> string option \<Rightarrow> string" where
  "connect_url vmName zone ip =
     API_BASE_URL @ ''/vms/'' @ vmName @ ''/connect?zone='' @ zone
       @ (case ip of
            None \<Rightarrow> []
          | Some a \<Rightarrow> if a \<noteq> [] then ''&ip_external='' @ a else [])"

definition connect_fallback :: "string \<Rightarrow> string" where
  "connect_fallback vmName = ''Error al intentar conectar a '' @ vmName @ ''.''"

text \<open>
  The template literal of the dialog reads \<^verbatim>\<open>data.mensaje\<close>, then
  \<^verbatim>\<open>data.comando_ssh\<close>; either read throws when \<^verbatim>\<open>data\<close> is \<^verbatim>\<open>null\<close>.
\<close>

definition connect_message :: "json \<Rightarrow> exn + string" where
  "connect_message data =
     (case property data ''mensaje'' of
        Inl e \<Rightarrow> Inl e
      | Inr m \<Rightarrow>
          (case property data ''comando_ssh'' of
             Inl e \<Rightarrow> Inl e
           | Inr c \<Rightarrow> Inr (template_string m @ [CHR 0x0A] @ ''Comando: '' @ template_string c)))"

definition handleConnect_try ::
  "string \<Rightarrow> string \<Rightarrow> string option \<Rightarrow> json fetched \<Rightarrow> app_state \<Rightarrow> (exn + unit) \<times> app_state" where
  "handleConnect_try vmName zone ip r s =
     (let s1 = emit (Fetch ''POST'' (connect_url vmName zone ip)) s
      in case r of
           Rejected e \<Rightarrow> (Inl e, s1)
         | Error_response b \<Rightarrow> (Inl (not_ok_error b (connect_fallback vmName)), s1)
         | Ok_response b \<Rightarrow>
             (case b of
                Unparsable e \<Rightarrow> (Inl e, s1)
              | Parsed data \<Rightarrow>
                  (case connect_message data of
                     Inl e \<Rightarrow> (Inl e, s1)
                   | Inr text \<Rightarrow> (Inr (), emit (Alert text) s1))))"

definition handleConnect_catch :: "string \<Rightarrow> exn \<Rightarrow> app_state \<Rightarrow> app_state" where
  "handleConnect_catch vmName err s =
     setError (Some (or_else (message err) (connect_fallback vmName)))
       (emit (Console_error ''Error al conectar:'' err) s)"

definition handleConnect ::
  "string \<Rightarrow> string \<Rightarrow> string option \<Rightarrow> json fetched \<Rightarrow> app_state \<Rightarrow> app_state" where
  "handleConnect vmName zone ip r s =
     (let s1 = setIsLoading True s;
          s2 = setError None s1;
          (res, s3) = handleConnect_try vmName zone ip r s2;
          s4 = (case res of Inl err \<Rightarrow> handleConnect_catch vmName err s3 | Inr u \<Rightarrow> s3)
      in setIsLoading False s4)"

subsection \<open>Vocabulary of the claims\<close>

text \<open>
  A request fails when no response is obtained (network failure) or the response is
  not 2xx. The value the \<^verbatim>\<open>try\<close> block then throws is the rejection itself, or
  the error built from the response's body (the clause for an ok response only makes
  \<open>failure\<close> total: no request that fails is an ok response).
\<close>

fun request_failed :: "'a fetched \<Rightarrow> bool" where
  "request_failed (Rejected e) = True"
| "request_failed (Error_response b) = True"
| "request_failed (Ok_response b) = False"

fun failure :: "'a fetched \<Rightarrow> string \<Rightarrow> exn" where
  "failure (Rejected e) fallback = e"
| "failure (Error_response b) fallback = not_ok_error b fallback"
| "failure (Ok_response b) fallback = Exn []"

text \<open>The events an operation adds to the state it starts from.\<close>

definition new_events :: "app_state \<Rightarrow> app_state \<Rightarrow> event list" where
  "new_events s s' = drop (length (events s)) (events s')"

text \<open>A call of \<^verbatim>\<open>fetchVms\<close> shows as its GET of the collection.\<close>

fun is_refetch :: "event \<Rightarrow> bool" where
  "is_refetch (Fetch m url) = (m = ''GET'' \<and> url = API_BASE_URL @ ''/vms'')"
| "is_refetch e = False"

fun is_Alert :: "event \<Rightarrow> bool" where
  "is_Alert (Alert m) = True"
| "is_Alert e = False"

fun is_Set_vms :: "event \<Rightarrow> bool" where
  "is_Set_vms (Set_vms v) = True"
| "is_Set_vms e = False"

text \<open>The events up to the first time \<^verbatim>\<open>isLoading\<close> is set back to false.\<close>

definition while_loading :: "event list \<Rightarrow> event list" where
  "while_loading t = takeWhile (\<lambda>e. e \<noteq> Set_isLoading False) t"

text \<open>The message of a \<^verbatim>\<open>SyntaxError\<close> that \<^verbatim>\<open>response.json()\<close> rejects with on an HTML body.\<close>

definition parse_error :: exn where
  "parse_error = Exn ''Unexpected token < in JSON at position 0''"

section \<open>Properties of the derived views\<close>

lemma starts_with_prefix: "starts_with hay needle \<longleftrightarrow> prefix needle hay"
  by (induction hay needle rule: starts_with.induct) auto

lemma includes_sublist: "includes_str hay needle \<longleftrightarrow> sublist needle hay"
proof (induction hay)
  case Nil
  show ?case by simp
next
  case (Cons h hs)
  then show ?case
    by (simp add: starts_with_prefix sublist_Cons_right del: starts_with.simps)
qed

text \<open>A capital letter A to Z moved up by 32 is not a capital letter.\<close>

lemma capital_moved_up:
  "0x41 \<le> c \<Longrightarrow> c \<le> 0x5A \<Longrightarrow> \<not> (c + 0x20 \<le> (0x5A :: code_unit))"
  by (simp add: word_le_nat_alt unat_add_lem [THEN iffD1])

lemma same_letter_lower: "same_letter c d \<longleftrightarrow> lower_basic_latin c = lower_basic_latin d"
  unfolding same_letter_def lower_basic_latin_def
  using capital_moved_up [of c] capital_moved_up [of d] by auto

lemma same_ignoring_case_lower:
  "same_ignoring_case s t \<longleftrightarrow> map lower_basic_latin s = map lower_basic_latin t"
proof -
  have "map lower_basic_latin s = map lower_basic_latin t
          \<longleftrightarrow> list_all2 (=) (map lower_basic_latin s) (map lower_basic_latin t)"
    by (simp add: list.rel_eq)
  also have "\<dots> \<longleftrightarrow> list_all2 same_letter s t"
    by (simp add: list_all2_map1 list_all2_map2 same_letter_lower [abs_def])
  finally show ?thesis
    by (simp add: same_ignoring_case_def)
qed

lemma contains_ignoring_case_sublist:
  "contains_ignoring_case hay needle
     \<longleftrightarrow> sublist (map lower_basic_latin needle) (map lower_basic_latin hay)"
proof
  assume "contains_ignoring_case hay needle"
  then obtain b p a where "hay = b @ p @ a"
    and "map lower_basic_latin p = map lower_basic_latin needle"
    unfolding contains_ignoring_case_def same_ignoring_case_lower by blast
  then have "map lower_basic_latin hay
               = map lower_basic_latin b @ map lower_basic_latin needle @ map lower_basic_latin a"
    by simp
  then show "sublist (map lower_basic_latin needle) (map lower_basic_latin hay)"
    unfolding sublist_def by blast
next
  assume "sublist (map lower_basic_latin needle) (map lower_basic_latin hay)"
  then obtain ps ss where eq: "map lower_basic_latin hay = ps @ map lower_basic_latin needle @ ss"
    unfolding sublist_def by blast
  define b where "b = take (length ps) hay"
  define p where "p = take (length needle) (drop (length ps) hay)"
  define a where "a = drop (length needle) (drop (length ps) hay)"
  have hay: "hay = b @ p @ a"
    by (simp add: b_def p_def a_def del: drop_drop)
  have "map lower_basic_latin p
          = take (length needle) (drop (length ps) (map lower_basic_latin hay))"
    by (simp add: p_def take_map drop_map)
  also have "\<dots> = map lower_basic_latin needle"
    by (simp add: eq)
  finally have "same_ignoring_case p needle"
    by (simp add: same_ignoring_case_lower)
  with hay show "contains_ignoring_case hay needle"
    unfolding contains_ignoring_case_def by blast
qed

lemma includes_contains_ignoring_case:
  assumes "lowers_basic_latin lower" and "basic_latin hay" and "basic_latin needle"
  shows "includes_str (lower hay) (lower needle) \<longleftrightarrow> contains_ignoring_case hay needle"
proof -
  from assms have "lower hay = map lower_basic_latin hay"
    and "lower needle = map lower_basic_latin needle"
    by (simp_all add: lowers_basic_latin_def)
  then show ?thesis
    by (simp add: includes_sublist contains_ignoring_case_sublist)
qed

text \<open>On Basic Latin strings \<open>lower_latin_greek\<close> is the lower-casing of the letters A to Z.\<close>

lemma lower_from_basic_latin:
  "basic_latin s \<Longrightarrow> lower_from seen s = map lower_basic_latin s"
proof (induction s arbitrary: seen)
  case Nil
  show ?case by simp
next
  case (Cons c cs)
  then have c: "c < 0x80" and cs: "basic_latin cs"
    by (simp_all add: basic_latin_def)
  from c have "c \<noteq> 0x3A3" and "\<not> 0x391 \<le> c" and "\<not> 0x3A4 \<le> c"
    by (auto simp: word_less_nat_alt word_le_nat_alt)
  then have "lower_unit seen c cs = lower_basic_latin c"
    by (simp add: lower_unit_def lower_basic_latin_def)
  with Cons.IH [OF cs] show ?case by simp
qed

lemma lower_latin_greek_basic_latin: "lowers_basic_latin lower_latin_greek"
  by (simp add: lowers_basic_latin_def lower_latin_greek_def lower_from_basic_latin)

lemmas lower_latin_greek_eval =
  lower_latin_greek_def lower_unit_def is_cased_def is_case_ignorable_def utf16_def

text \<open>
  C1 (amended). \<^verbatim>\<open>filteredVms\<close> keeps exactly the machines for which the lower-cased
  name contains the lower-cased search term as a substring, and the status filter is
  \<^verbatim>\<open>'Todos'\<close> or equals the status, and the zone filter is \<^verbatim>\<open>'Todas'\<close> or equals the
  zone: the three conditions are conjoined. When the names and the search term are
  made of Basic Latin characters, the first condition is that the name contains the
  search term up to the case of the letters.
\<close>

theorem filteredVms_exactly_conjunction:
  "filteredVms lower vs search sf zf
     = filter (\<lambda>vm. sublist (lower search) (lower (name vm))
                 \<and> (sf = ''Todos'' \<or> status_string (status vm) = sf)
                 \<and> (zf = ''Todas'' \<or> zoneRegion vm = zf)) vs
   \<and> (lowers_basic_latin lower \<and> basic_latin search \<and> list_all (\<lambda>vm. basic_latin (name vm)) vs
        \<longrightarrow> filteredVms lower vs search sf zf = filter (passes_filters search sf zf) vs
            \<and> set (filteredVms lower vs search sf zf)
                = {vm \<in> set vs. contains_ignoring_case (name vm) search
                     \<and> (sf = ''Todos'' \<or> status_string (status vm) = sf)
                     \<and> (zf = ''Todas'' \<or> zoneRegion vm = zf)})"
proof -
  have fused: "filteredVms lower vs search sf zf
     = filter (\<lambda>vm. sublist (lower search) (lower (name vm))
                 \<and> (sf = ''Todos'' \<or> status_string (status vm) = sf)
                 \<and> (zf = ''Todas'' \<or> zoneRegion vm = zf)) vs"
    unfolding filteredVms_def
    by (simp add: includes_sublist conj_commute conj_left_commute)
  have "filteredVms lower vs search sf zf = filter (passes_filters search sf zf) vs"
    if l: "lowers_basic_latin lower" and t: "basic_latin search"
      and n: "list_all (\<lambda>vm. basic_latin (name vm)) vs"
  proof -
    have "sublist (lower search) (lower (name vm)) \<longleftrightarrow> contains_ignoring_case (name vm) search"
      if "vm \<in> set vs" for vm
    proof -
      from n that have "basic_latin (name vm)"
        by (simp add: list_all_iff)
      from includes_contains_ignoring_case [OF l this t] show ?thesis
        by (simp add: includes_sublist)
    qed
    then show ?thesis
      unfolding fused passes_filters_def by (auto intro: filter_cong)
  qed
  then show ?thesis
    using fused by (auto simp: passes_filters_def)
qed

theorem filteredVms_exactly_conjunction_witness:
  "lowers_basic_latin lower_latin_greek
   \<and> basic_latin (utf16 ''WEB-2'')
   \<and> list_all (\<lambda>vm. basic_latin (name vm)) [web1, web2]
   \<and> filteredVms lower_latin_greek [web1, web2] (utf16 ''WEB-2'') ''Todos'' ''Todas'' = [web2]
   \<and> filter (passes_filters (utf16 ''WEB-2'') ''Todos'' ''Todas'') [web1, web2] = [web2]
   \<and> filteredVms lower_latin_greek [web1, web2] (utf16 ''web'') ''Running'' ''Todas'' = [web1]
   \<and> filter (passes_filters (utf16 ''web'') ''Running'' ''Todas'') [web1, web2] = [web1]
   \<and> filteredVms lower_latin_greek [web1, web2] (utf16 ''zzz'') ''Todos'' ''Todas'' = []
   \<and> filter (passes_filters (utf16 ''zzz'') ''Todos'' ''Todas'') [web1, web2] = []"
proof -
  have names: "list_all (\<lambda>vm. basic_latin (name vm)) [web1, web2]"
    by (simp add: web1_def web2_def basic_latin_def utf16_def)
  have terms: "basic_latin (utf16 ''WEB-2'')" "basic_latin (utf16 ''web'')"
    "basic_latin (utf16 ''zzz'')"
    by (simp_all add: basic_latin_def utf16_def)
  have e1: "filteredVms lower_latin_greek [web1, web2] (utf16 ''WEB-2'') ''Todos'' ''Todas'' = [web2]"
    by (simp add: filteredVms_def web1_def web2_def lower_latin_greek_eval)
  have e2: "filteredVms lower_latin_greek [web1, web2] (utf16 ''web'') ''Running'' ''Todas'' = [web1]"
    by (simp add: filteredVms_def web1_def web2_def lower_latin_greek_eval)
  have e3: "filteredVms lower_latin_greek [web1, web2] (utf16 ''zzz'') ''Todos'' ''Todas'' = []"
    by (simp add: filteredVms_def web1_def web2_def lower_latin_greek_eval)
  from filteredVms_exactly_conjunction
      [of lower_latin_greek "[web1, web2]" "utf16 ''WEB-2''" "''Todos''" "''Todas''"]
    filteredVms_exactly_conjunction
      [of lower_latin_greek "[web1, web2]" "utf16 ''web''" "''Running''" "''Todas''"]
    filteredVms_exactly_conjunction
      [of lower_latin_greek "[web1, web2]" "utf16 ''zzz''" "''Todos''" "''Todas''"]
    lower_latin_greek_basic_latin names terms e1 e2 e3
  show ?thesis by metis
qed

text \<open>
  C1 as stated fails: the name of capital alpha and capital sigma contains the search
  term capital sigma as it stands, so also up to case, and the other two filters are
  off; but the name lowers to alpha and final sigma, the term to the medial sigma, and
  \<^verbatim>\<open>filteredVms\<close> drops the machine.
\<close>

theorem filteredVms_exactly_conjunction_counterexample:
  "passes_filters [0x3A3] ''Todos'' ''Todas'' alpha_sigma
   \<and> lower_latin_greek (name alpha_sigma) = [0x3B1, 0x3C2]
   \<and> lower_latin_greek [0x3A3] = [0x3C3]
   \<and> filteredVms lower_latin_greek [alpha_sigma] [0x3A3] ''Todos'' ''Todas'' = []"
proof -
  have "name alpha_sigma = [0x391] @ [0x3A3] @ []" and "same_ignoring_case [0x3A3] [0x3A3]"
    by (simp_all add: alpha_sigma_def same_ignoring_case_def same_letter_def)
  then have "contains_ignoring_case (name alpha_sigma) [0x3A3]"
    unfolding contains_ignoring_case_def by blast
  then have "passes_filters [0x3A3] ''Todos'' ''Todas'' alpha_sigma"
    by (simp add: passes_filters_def)
  moreover have "lower_latin_greek (name alpha_sigma) = [0x3B1, 0x3C2]"
    and "lower_latin_greek [0x3A3] = [0x3C3]"
    by (simp_all add: alpha_sigma_def lower_latin_greek_eval)
  moreover have "filteredVms lower_latin_greek [alpha_sigma] [0x3A3] ''Todos'' ''Todas'' = []"
    by (simp add: filteredVms_def alpha_sigma_def lower_latin_greek_eval)
  ultimately show ?thesis by simp
qed

lemma set_foldl_Set_add: "set (foldl Set_add acc xs) = set acc \<union> set xs"
  by (induction xs arbitrary: acc) (auto simp: Set_add_def)

lemma distinct_foldl_Set_add: "distinct acc \<Longrightarrow> distinct (foldl Set_add acc xs)"
  by (induction xs arbitrary: acc) (auto simp: Set_add_def)

lemma set_new_Set: "set (new_Set xs) = set xs"
  by (simp add: new_Set_def set_foldl_Set_add)

lemma distinct_new_Set: "distinct (new_Set xs)"
  by (simp add: new_Set_def distinct_foldl_Set_add)

text \<open>
  C5. \<^verbatim>\<open>allZones\<close> lists the zones that occur in the snapshot, each once, in
  ascending lexicographic order: it is the sorted list of the set of zones. For the
  machines in \<^verbatim>\<open>us-1\<close> and \<^verbatim>\<open>us-2\<close> it is \<^verbatim>\<open>["us-1","us-2"]\<close>.
\<close>

theorem allZones_sorted_distinct:
  "set (allZones vs) = zoneRegion ` set vs
   \<and> distinct (allZones vs)
   \<and> sorted (allZones vs)
   \<and> allZones vs = sorted_list_of_set (zoneRegion ` set vs)
   \<and> allZones [web1, web2] = [''us-1'', ''us-2'']"
proof -
  have s: "set (allZones vs) = zoneRegion ` set vs"
    by (simp add: allZones_def set_new_Set)
  have d: "distinct (allZones vs)"
    by (simp add: allZones_def distinct_new_Set)
  have o: "sorted (allZones vs)"
    by (simp add: allZones_def)
  have "allZones vs = sorted_list_of_set (zoneRegion ` set vs)"
    by (rule sorted_distinct_set_unique) (simp_all add: s d o)
  moreover have "allZones [web1, web2] = [''us-1'', ''us-2'']"
    by (simp add: allZones_def new_Set_def Set_add_def web1_def web2_def)
  ultimately show ?thesis
    using s d o by simp
qed

theorem allZones_sorted_distinct_witness:
  "distinct (allZones [web2, web1, web2]) \<and> allZones [web2, web1, web2] = [''us-1'', ''us-2'']"
proof -
  have "distinct (allZones [web2, web1, web2])"
    using allZones_sorted_distinct [of "[web2, web1, web2]"] by blast
  moreover have "allZones [web2, web1, web2] = [''us-1'', ''us-2'']"
    by (simp add: allZones_def new_Set_def Set_add_def web1_def web2_def)
  ultimately show ?thesis
    by blast
qed

lemma count_list_filter_le: "count_list (filter P xs) x \<le> count_list xs x"
  by (induction xs) auto

text \<open>
  C10. \<^verbatim>\<open>filteredVms\<close> is a subsequence of \<^verbatim>\<open>vms\<close>: it is obtained by dropping
  elements, so the machines that stay keep their relative order, every element comes
  from \<^verbatim>\<open>vms\<close>, and no machine occurs more often than in \<^verbatim>\<open>vms\<close>.
\<close>

theorem filteredVms_subsequence:
  "subseq (filteredVms lower vs search sf zf) vs
   \<and> set (filteredVms lower vs search sf zf) \<subseteq> set vs
   \<and> count_list (filteredVms lower vs search sf zf) vm \<le> count_list vs vm"
proof -
  let ?f1 = "filter (\<lambda>vm. includes_str (lower (name vm)) (lower search)) vs"
  let ?f2 = "filter (\<lambda>vm. sf = ''Todos'' \<or> status_string (status vm) = sf) ?f1"
  have "subseq ?f1 vs" and "subseq ?f2 ?f1"
    by (rule subseq_filter_left)+
  moreover have "subseq (filteredVms lower vs search sf zf) ?f2"
    unfolding filteredVms_def by (rule subseq_filter_left)
  ultimately have sub: "subseq (filteredVms lower vs search sf zf) vs"
    by (meson subseq_order.order_trans)
  have "count_list (filteredVms lower vs search sf zf) vm \<le> count_list ?f2 vm"
    unfolding filteredVms_def by (rule count_list_filter_le)
  also have "\<dots> \<le> count_list ?f1 vm"
    by (rule count_list_filter_le)
  also have "\<dots> \<le> count_list vs vm"
    by (rule count_list_filter_le)
  finally have cnt: "count_list (filteredVms lower vs search sf zf) vm \<le> count_list vs vm" .
  have "set (filteredVms lower vs search sf zf) \<subseteq> set vs"
    by (auto simp: filteredVms_def)
  with sub cnt show ?thesis by simp
qed

theorem filteredVms_subsequence_witness:
  "subseq (filteredVms lower_latin_greek [web2, web1, web2] (utf16 ''web'') ''Stopped'' ''us-2'')
     [web2, web1, web2]
   \<and> filteredVms lower_latin_greek [web2, web1, web2] (utf16 ''web'') ''Stopped'' ''us-2''
       = [web2, web2]
   \<and> count_list
        (filteredVms lower_latin_greek [web2, web1, web2] (utf16 ''web'') ''Stopped'' ''us-2'')
        web1 = 0"
proof -
  have e: "filteredVms lower_latin_greek [web2, web1, web2] (utf16 ''web'') ''Stopped'' ''us-2''
             = [web2, web2]"
    by (simp add: filteredVms_def web1_def web2_def lower_latin_greek_eval)
  have "web1 \<noteq> web2"
    by (simp add: web1_def web2_def)
  with e filteredVms_subsequence
    [of lower_latin_greek "[web2, web1, web2]" "utf16 ''web''" "''Stopped''" "''us-2''" web1]
  show ?thesis by simp
qed

section \<open>Properties of the operations\<close>

lemmas setters = setVms_def setIsLoading_def setError_def emit_def

lemma fetchVms_loaded:
  "fetchVms (Ok_response (Parsed data)) s =
     s\<lparr>vms := data, isLoading := False, error := None,
       events := events s @ [Set_isLoading True, Set_error None,
                             Fetch ''GET'' (API_BASE_URL @ ''/vms''), Set_vms data,
                             Set_isLoading False]\<rparr>"
  by (simp add: fetchVms_def fetchVms_try_def setters)

lemma fetchVms_try_failed:
  "request_failed r \<Longrightarrow>
     fetchVms_try r s = (Inl (failure r fetch_fallback), emit (Fetch ''GET'' (API_BASE_URL @ ''/vms'')) s)"
  by (cases r) (simp_all add: fetchVms_try_def)

lemma fetchVms_thrown:
  "fetchVms_try r s = (Inl err, s') \<Longrightarrow>
   fetchVms r s =
     s\<lparr>vms := [], isLoading := False,
       error := Some (or_else (message err) fetch_catch_fallback),
       events := events s @ [Set_isLoading True, Set_error None,
                             Fetch ''GET'' (API_BASE_URL @ ''/vms''),
                             Console_error ''Error al obtener VMs:'' err,
                             Set_error (Some (or_else (message err) fetch_catch_fallback)),
                             Set_vms [], Set_isLoading False]\<rparr>"
  by (auto simp add: fetchVms_def fetchVms_try_def fetchVms_catch_def setters Let_def
      split: fetched.splits body.splits)

lemma fetchVms_failed:
  "request_failed r \<Longrightarrow>
   fetchVms r s =
     s\<lparr>vms := [], isLoading := False,
       error := Some (or_else (message (failure r fetch_fallback)) fetch_catch_fallback),
       events := events s @ [Set_isLoading True, Set_error None,
                             Fetch ''GET'' (API_BASE_URL @ ''/vms''),
                             Console_error ''Error al obtener VMs:'' (failure r fetch_fallback),
                             Set_error (Some (or_else (message (failure r fetch_fallback)) fetch_catch_fallback)),
                             Set_vms [], Set_isLoading False]\<rparr>"
  using fetchVms_thrown [OF fetchVms_try_failed] by simp

lemma fetchVms_events:
  "\<exists>mid. events (fetchVms r s) = events s @ [Set_isLoading True, Set_error None, Fetch ''GET'' (API_BASE_URL @ ''/vms'')] @ mid @ [Set_isLoading False]
      \<and> (\<forall>e \<in> set mid. \<not> is_refetch e \<and> \<not> is_Alert e \<and> e \<noteq> Set_isLoading False)"
proof (cases "fetchVms_try r s")
  case (Pair res s')
  show ?thesis
  proof (cases res)
    case (Inl err)
    with Pair show ?thesis by (simp add: fetchVms_thrown)
  next
    case (Inr u)
    with Pair obtain data where "r = Ok_response (Parsed data)"
      by (auto simp: fetchVms_try_def Let_def split: fetched.splits body.splits)
    then show ?thesis by (simp add: fetchVms_loaded)
  qed
qed

lemma new_events_append: "events s' = events s @ t \<Longrightarrow> new_events s s' = t"
  by (simp add: new_events_def)

lemma toggle_try_failed:
  "request_failed r \<Longrightarrow>
   handleTogglePower_try n z st r refresh s =
     (Inl (failure r (toggle_fallback n)), emit (Fetch ''POST'' (toggle_url n z st)) s)"
  by (cases r) (simp_all add: handleTogglePower_try_def)

lemma toggle_failed:
  "request_failed r \<Longrightarrow>
   handleTogglePower n z st r refresh s =
     s\<lparr>isLoading := False,
       error := Some (or_else (message (failure r (toggle_fallback n))) (toggle_fallback n)),
       events := events s @ [Set_isLoading True, Set_error None,
                             Fetch ''POST'' (toggle_url n z st),
                             Console_error ''Error al cambiar el estado:'' (failure r (toggle_fallback n)),
                             Set_error (Some (or_else (message (failure r (toggle_fallback n))) (toggle_fallback n))),
                             Set_isLoading False]\<rparr>"
  by (simp add: handleTogglePower_def toggle_try_failed handleTogglePower_catch_def setters)

lemma toggle_ok:
  "handleTogglePower n z st (Ok_response b) refresh s =
     setIsLoading False
       (emit (Alert (toggle_done_message n))
          (fetchVms refresh
             (emit (Fetch ''POST'' (toggle_url n z st)) (setError None (setIsLoading True s)))))"
  by (simp add: handleTogglePower_def handleTogglePower_try_def)

lemma toggle_ok_events:
  "\<exists>mid. new_events s (handleTogglePower n z st (Ok_response b) refresh s) =
      [Set_isLoading True, Set_error None, Fetch ''POST'' (toggle_url n z st),
       Set_isLoading True, Set_error None, Fetch ''GET'' (API_BASE_URL @ ''/vms'')] @ mid
      @ [Set_isLoading False, Alert (toggle_done_message n), Set_isLoading False]
    \<and> (\<forall>e \<in> set mid. \<not> is_refetch e \<and> \<not> is_Alert e \<and> e \<noteq> Set_isLoading False)"
proof -
  define s2 where "s2 = emit (Fetch ''POST'' (toggle_url n z st)) (setError None (setIsLoading True s))"
  have e2: "events s2 = events s @ [Set_isLoading True, Set_error None, Fetch ''POST'' (toggle_url n z st)]"
    by (simp add: s2_def setters)
  obtain mid where m: "events (fetchVms refresh s2) = events s2 @ [Set_isLoading True, Set_error None, Fetch ''GET'' (API_BASE_URL @ ''/vms'')] @ mid @ [Set_isLoading False]"
    and ok: "\<forall>e \<in> set mid. \<not> is_refetch e \<and> \<not> is_Alert e \<and> e \<noteq> Set_isLoading False"
    using fetchVms_events by blast
  have "handleTogglePower n z st (Ok_response b) refresh s
          = setIsLoading False (emit (Alert (toggle_done_message n)) (fetchVms refresh s2))"
    by (simp add: toggle_ok s2_def)
  then have "events (handleTogglePower n z st (Ok_response b) refresh s) = events s @
      [Set_isLoading True, Set_error None, Fetch ''POST'' (toggle_url n z st),
       Set_isLoading True, Set_error None, Fetch ''GET'' (API_BASE_URL @ ''/vms'')] @ mid
      @ [Set_isLoading False, Alert (toggle_done_message n), Set_isLoading False]"
    by (simp add: setIsLoading_def emit_def m e2)
  then show ?thesis using ok new_events_append by blast
qed

lemma toggle_url_not_refetch: "\<not> is_refetch (Fetch ''POST'' u)"
  by simp

text \<open>
  C3. When the POST of \<^verbatim>\<open>handleTogglePower\<close> succeeds, the operation issues
  exactly one \<^verbatim>\<open>fetchVms\<close> request, and issues it before \<^verbatim>\<open>isLoading\<close> is
  first set back to false; no completion dialog is shown before that point, exactly
  one is shown after it, and the operation ends with \<^verbatim>\<open>isLoading\<close> false. When the
  refresh succeeds, \<^verbatim>\<open>vms\<close> is the server's list.
\<close>

theorem togglePower_refreshes_once:
  "length (filter is_refetch (new_events s (handleTogglePower n z st (Ok_response b) refresh s))) = 1
   \<and> length (filter is_refetch
        (while_loading (new_events s (handleTogglePower n z st (Ok_response b) refresh s)))) = 1
   \<and> filter is_Alert
        (while_loading (new_events s (handleTogglePower n z st (Ok_response b) refresh s))) = []
   \<and> filter is_Alert (new_events s (handleTogglePower n z st (Ok_response b) refresh s))
        = [Alert (toggle_done_message n)]
   \<and> last (new_events s (handleTogglePower n z st (Ok_response b) refresh s)) = Set_isLoading False
   \<and> isLoading (handleTogglePower n z st (Ok_response b) refresh s) = False
   \<and> vms (handleTogglePower n z st (Ok_response b) (Ok_response (Parsed data)) s) = data"
proof -
  obtain mid where t: "new_events s (handleTogglePower n z st (Ok_response b) refresh s) =
      [Set_isLoading True, Set_error None, Fetch ''POST'' (toggle_url n z st),
       Set_isLoading True, Set_error None, Fetch ''GET'' (API_BASE_URL @ ''/vms'')] @ mid
      @ [Set_isLoading False, Alert (toggle_done_message n), Set_isLoading False]"
    and ok: "\<forall>e \<in> set mid. \<not> is_refetch e \<and> \<not> is_Alert e \<and> e \<noteq> Set_isLoading False"
    using toggle_ok_events by blast
  have f1: "filter is_refetch mid = []" and f2: "filter is_Alert mid = []"
    using ok by (simp_all add: filter_empty_conv)
  have tw: "takeWhile (\<lambda>e. e \<noteq> Set_isLoading False) (mid @ [Set_isLoading False, Alert (toggle_done_message n), Set_isLoading False]) = mid"
    using ok by (simp add: takeWhile_append2 [of mid] takeWhile_tail)
  have wl: "while_loading (new_events s (handleTogglePower n z st (Ok_response b) refresh s)) =
     [Set_isLoading True, Set_error None, Fetch ''POST'' (toggle_url n z st),
       Set_isLoading True, Set_error None, Fetch ''GET'' (API_BASE_URL @ ''/vms'')] @ mid"
    unfolding while_loading_def t using tw by simp
  have a: "length (filter is_refetch (new_events s (handleTogglePower n z st (Ok_response b) refresh s))) = 1"
    unfolding t by (simp add: f1)
  have b: "length (filter is_refetch
        (while_loading (new_events s (handleTogglePower n z st (Ok_response b) refresh s)))) = 1"
    unfolding wl by (simp add: f1)
  have c: "filter is_Alert
        (while_loading (new_events s (handleTogglePower n z st (Ok_response b) refresh s))) = []"
    unfolding wl by (simp add: f2)
  have d: "filter is_Alert (new_events s (handleTogglePower n z st (Ok_response b) refresh s))
        = [Alert (toggle_done_message n)]"
    unfolding t by (simp add: f2)
  have e: "last (new_events s (handleTogglePower n z st (Ok_response b) refresh s)) = Set_isLoading False"
    unfolding t by simp
  have f: "isLoading (handleTogglePower n z st (Ok_response b) refresh s) = False"
    by (simp add: toggle_ok setters)
  have g: "vms (handleTogglePower n z st (Ok_response b) (Ok_response (Parsed data)) s) = data"
    by (simp add: toggle_ok fetchVms_loaded setters)
  from a b c d e f g show ?thesis by blast
qed

theorem togglePower_refreshes_once_witness:
  "filter is_refetch (new_events initial_state
      (handleTogglePower ''web-1'' ''us-1'' Running (Ok_response (Parsed ()))
         (Ok_response (Parsed [web2])) initial_state))
     = [Fetch ''GET'' ''http://localhost:8000/api/vms'']
   \<and> filter is_Alert (new_events initial_state
      (handleTogglePower ''web-1'' ''us-1'' Running (Ok_response (Parsed ()))
         (Ok_response (Parsed [web2])) initial_state))
     = [Alert (toggle_done_message ''web-1'')]
   \<and> vms (handleTogglePower ''web-1'' ''us-1'' Running (Ok_response (Parsed ()))
         (Ok_response (Parsed [web2])) initial_state) = [web2]"
proof -
  have "filter is_refetch (new_events initial_state
      (handleTogglePower ''web-1'' ''us-1'' Running (Ok_response (Parsed ()))
         (Ok_response (Parsed [web2])) initial_state))
     = [Fetch ''GET'' ''http://localhost:8000/api/vms'']"
    by (simp add: toggle_ok fetchVms_loaded setters new_events_def initial_state_def
        API_BASE_URL_def)
  with togglePower_refreshes_once [of initial_state "''web-1''" "''us-1''" Running "Parsed ()"
      "Ok_response (Parsed [web2])" "[web2]"]
  show ?thesis by simp
qed

lemma connect_try_failed:
  "request_failed r \<Longrightarrow>
   handleConnect_try n z ip r s =
     (Inl (failure r (connect_fallback n)), emit (Fetch ''POST'' (connect_url n z ip)) s)"
  by (cases r) (simp_all add: handleConnect_try_def)

lemma connect_failed:
  "request_failed r \<Longrightarrow>
   handleConnect n z ip r s =
     s\<lparr>isLoading := False,
       error := Some (or_else (message (failure r (connect_fallback n))) (connect_fallback n)),
       events := events s @ [Set_isLoading True, Set_error None,
                             Fetch ''POST'' (connect_url n z ip),
                             Console_error ''Error al conectar:'' (failure r (connect_fallback n)),
                             Set_error (Some (or_else (message (failure r (connect_fallback n))) (connect_fallback n))),
                             Set_isLoading False]\<rparr>"
  by (simp add: handleConnect_def connect_try_failed handleConnect_catch_def setters)

lemma connect_thrown:
  "handleConnect_try n z ip r s = (Inl err, s') \<Longrightarrow>
   handleConnect n z ip r s =
     s\<lparr>isLoading := False,
       error := Some (or_else (message err) (connect_fallback n)),
       events := events s @ [Set_isLoading True, Set_error None,
                             Fetch ''POST'' (connect_url n z ip),
                             Console_error ''Error al conectar:'' err,
                             Set_error (Some (or_else (message err) (connect_fallback n))),
                             Set_isLoading False]\<rparr>"
  by (auto simp add: handleConnect_def handleConnect_try_def handleConnect_catch_def setters Let_def
      split: fetched.splits body.splits sum.splits)

lemma connect_shown:
  "connect_message data = Inr msg \<Longrightarrow>
   handleConnect n z ip (Ok_response (Parsed data)) s =
     s\<lparr>isLoading := False, error := None,
       events := events s @ [Set_isLoading True, Set_error None,
                             Fetch ''POST'' (connect_url n z ip), Alert msg,
                             Set_isLoading False]\<rparr>"
  by (simp add: handleConnect_def handleConnect_try_def setters)

lemma connect_answered:
  "map_of kvs ''mensaje'' = Some (JStr m) \<Longrightarrow> map_of kvs ''comando_ssh'' = Some (JStr c) \<Longrightarrow>
   handleConnect n z ip (Ok_response (Parsed (JObj kvs))) s =
     s\<lparr>isLoading := False, error := None,
       events := events s @ [Set_isLoading True, Set_error None,
                             Fetch ''POST'' (connect_url n z ip),
                             Alert (m @ [CHR 0x0A] @ ''Comando: '' @ c),
                             Set_isLoading False]\<rparr>"
  by (simp add: handleConnect_def handleConnect_try_def connect_message_def template_string_def setters)

lemma connect_frame:
  "vms (handleConnect n z ip r s) = vms s
   \<and> filter is_Set_vms (new_events s (handleConnect n z ip r s)) = []
   \<and> filter is_refetch (new_events s (handleConnect n z ip r s)) = []"
proof (cases "handleConnect_try n z ip r s")
  case (Pair res s')
  show ?thesis
  proof (cases res)
    case (Inl err)
    with Pair show ?thesis
      by (simp add: connect_thrown new_events_def)
  next
    case (Inr u)
    with Pair obtain data msg where "r = Ok_response (Parsed data)" and "connect_message data = Inr msg"
      by (auto simp: handleConnect_try_def Let_def split: fetched.splits body.splits sum.splits)
    then show ?thesis
      by (simp add: connect_shown new_events_def)
  qed
qed


lemma not_ok_error_detail:
  "map_of kvs ''detail'' = Some (JStr d) \<Longrightarrow> d \<noteq> [] \<Longrightarrow>
   not_ok_error (Parsed (JObj kvs)) fallback = Exn d"
  by (simp add: not_ok_error_def)

lemma not_ok_error_no_detail:
  "map_of kvs ''detail'' = None \<Longrightarrow> not_ok_error (Parsed (JObj kvs)) fallback = Exn fallback"
  by (simp add: not_ok_error_def)

lemma not_ok_error_unparsable: "not_ok_error (Unparsable e) fallback = e"
  by (simp add: not_ok_error_def)

lemma fallbacks_not_empty:
  "fetch_fallback \<noteq> []" "fetch_catch_fallback \<noteq> []" "toggle_fallback n \<noteq> []" "connect_fallback n \<noteq> []"
  by (simp_all add: fetch_fallback_def fetch_catch_fallback_def toggle_fallback_def connect_fallback_def)


text \<open>
  fetchVms_failure_clears_vms (amended). When the request of \<^verbatim>\<open>fetchVms\<close> fails (no response, or a response
  that is not 2xx), \<^verbatim>\<open>vms\<close> becomes empty and \<^verbatim>\<open>error\<close> is the message of the thrown
  value if that is not empty, else the fallback of the \<^verbatim>\<open>catch\<close> handler. The thrown
  message is the server's \<^verbatim>\<open>detail\<close> when the body parses to an object with a
  non-empty string \<^verbatim>\<open>detail\<close>, the thrown error's own message when the request is
  rejected or the body cannot be parsed, and the fallback of the operation when the
  object has no \<^verbatim>\<open>detail\<close>. A response that is not 2xx with body
  \<^verbatim>\<open>{detail:"boom"}\<close> gives \<^verbatim>\<open>vms = []\<close> and \<^verbatim>\<open>error = "boom"\<close>.
\<close>

theorem fetchVms_failure_clears_vms:
  "(request_failed r \<longrightarrow>
      vms (fetchVms r s) = []
      \<and> error (fetchVms r s)
          = Some (or_else (message (failure r fetch_fallback)) fetch_catch_fallback))
   \<and> (map_of kvs ''detail'' = Some (JStr d) \<and> d \<noteq> [] \<longrightarrow>
        error (fetchVms (Error_response (Parsed (JObj kvs))) s) = Some d)
   \<and> (message e \<noteq> [] \<longrightarrow>
        error (fetchVms (Rejected e) s) = Some (message e)
        \<and> error (fetchVms (Error_response (Unparsable e)) s) = Some (message e))
   \<and> (map_of kvs ''detail'' = None \<longrightarrow>
        error (fetchVms (Error_response (Parsed (JObj kvs))) s) = Some fetch_fallback)
   \<and> vms (fetchVms (Error_response (Parsed (JObj [(''detail'', JStr ''boom'')]))) s) = []
   \<and> error (fetchVms (Error_response (Parsed (JObj [(''detail'', JStr ''boom'')]))) s) = Some ''boom''"
  by (simp add: fetchVms_failed not_ok_error_detail not_ok_error_no_detail not_ok_error_unparsable
      or_else_def fallbacks_not_empty)

theorem fetchVms_failure_clears_vms_witness:
  "request_failed (Error_response (Parsed (JObj [(''detail'', JStr ''boom'')])) :: VM list fetched)
   \<and> vms (fetchVms (Error_response (Parsed (JObj [(''detail'', JStr ''boom'')])))
            (initial_state\<lparr>vms := [web1]\<rparr>)) = []
   \<and> error (fetchVms (Error_response (Parsed (JObj [(''detail'', JStr ''boom'')])))
            (initial_state\<lparr>vms := [web1]\<rparr>)) = Some ''boom''
   \<and> error (fetchVms (Rejected (Exn ''Failed to fetch'')) (initial_state\<lparr>vms := [web1]\<rparr>))
       = Some ''Failed to fetch''
   \<and> error (fetchVms (Error_response (Parsed (JObj []))) (initial_state\<lparr>vms := [web1]\<rparr>))
       = Some fetch_fallback"
  using fetchVms_failure_clears_vms [of "Error_response (Parsed (JObj [(''detail'', JStr ''boom'')]))"
        "initial_state\<lparr>vms := [web1]\<rparr>" "[(''detail'', JStr ''boom'')]" "''boom''"
        "Exn ''Failed to fetch''"]
    fetchVms_failure_clears_vms [of "Rejected (Exn ''Failed to fetch'')" "initial_state\<lparr>vms := [web1]\<rparr>" "[]" "''x''"
        "Exn ''Failed to fetch''"]
  by simp

text \<open>
  fetchVms_failure_clears_vms as stated fails: after a network failure the stored error is the message of the
  rejection, which is neither a server detail (there is no response) nor one of the
  two fallback messages of \<^verbatim>\<open>fetchVms\<close>.
\<close>

theorem fetchVms_failure_clears_vms_counterexample:
  "request_failed (Rejected (Exn ''Failed to fetch'') :: VM list fetched)
   \<and> error (fetchVms (Rejected (Exn ''Failed to fetch'')) (initial_state\<lparr>vms := [web1]\<rparr>))
       = Some ''Failed to fetch''
   \<and> error (fetchVms (Rejected (Exn ''Failed to fetch'')) (initial_state\<lparr>vms := [web1]\<rparr>))
       \<notin> {Some fetch_fallback, Some fetch_catch_fallback}"
  by (simp add: fetchVms_failed or_else_def fetch_fallback_def fetch_catch_fallback_def)

text \<open>
  unparsable_body_error_message (amended). When a response is not 2xx and its body cannot be parsed, each of the
  three operations stores the parse error's own message if that is not empty, and its
  fallback message only when the parse error has an empty message.
\<close>

theorem unparsable_body_error_message:
  "error (fetchVms (Error_response (Unparsable e)) s)
     = Some (or_else (message e) fetch_catch_fallback)
   \<and> error (handleTogglePower n z st (Error_response (Unparsable e) :: 'a fetched) refresh s)
     = Some (or_else (message e) (toggle_fallback n))
   \<and> error (handleConnect n z ip (Error_response (Unparsable e)) s)
     = Some (or_else (message e) (connect_fallback n))
   \<and> (message e \<noteq> [] \<longrightarrow>
        error (fetchVms (Error_response (Unparsable e)) s) = Some (message e)
        \<and> error (handleTogglePower n z st (Error_response (Unparsable e) :: 'a fetched) refresh s)
            = Some (message e)
        \<and> error (handleConnect n z ip (Error_response (Unparsable e)) s) = Some (message e))
   \<and> (message e = [] \<longrightarrow>
        error (fetchVms (Error_response (Unparsable e)) s) = Some fetch_catch_fallback
        \<and> error (handleTogglePower n z st (Error_response (Unparsable e) :: 'a fetched) refresh s)
            = Some (toggle_fallback n)
        \<and> error (handleConnect n z ip (Error_response (Unparsable e)) s)
            = Some (connect_fallback n))"
  by (simp add: fetchVms_failed toggle_failed connect_failed not_ok_error_unparsable or_else_def)

theorem unparsable_body_error_message_witness:
  "message parse_error \<noteq> []
   \<and> error (fetchVms (Error_response (Unparsable parse_error)) initial_state)
       = Some (message parse_error)
   \<and> message (Exn []) = []
   \<and> error (handleConnect ''web-1'' ''us-1'' None (Error_response (Unparsable (Exn []))) initial_state)
       = Some (connect_fallback ''web-1'')"
  using unparsable_body_error_message [where ?'a = unit, of parse_error initial_state "''web-1''" "''us-1''" Running
        "Rejected (Exn [])" None]
    unparsable_body_error_message [where ?'a = unit, of "Exn []" initial_state "''web-1''" "''us-1''" Running
        "Rejected (Exn [])" None]
  by (simp add: parse_error_def or_else_def)

text \<open>
  unparsable_body_error_message as stated fails: on an HTML body of a response that is not 2xx, each of the three
  operations stores the text of the parse error, not its fallback message.
\<close>

theorem unparsable_body_error_message_counterexample:
  "error (fetchVms (Error_response (Unparsable parse_error)) initial_state)
     = Some ''Unexpected token < in JSON at position 0''
   \<and> error (fetchVms (Error_response (Unparsable parse_error)) initial_state)
       \<notin> {Some fetch_fallback, Some fetch_catch_fallback}
   \<and> error (handleTogglePower ''web-1'' ''us-1'' Running (Error_response (Unparsable parse_error) :: unit fetched)
              (Ok_response (Parsed [])) initial_state)
     = Some ''Unexpected token < in JSON at position 0''
   \<and> error (handleTogglePower ''web-1'' ''us-1'' Running (Error_response (Unparsable parse_error) :: unit fetched)
              (Ok_response (Parsed [])) initial_state)
       \<noteq> Some (toggle_fallback ''web-1'')
   \<and> error (handleConnect ''web-1'' ''us-1'' None (Error_response (Unparsable parse_error)) initial_state)
     = Some ''Unexpected token < in JSON at position 0''
   \<and> error (handleConnect ''web-1'' ''us-1'' None (Error_response (Unparsable parse_error)) initial_state)
       \<noteq> Some (connect_fallback ''web-1'')"
  by (simp add: fetchVms_failed toggle_failed connect_failed not_ok_error_unparsable or_else_def
      parse_error_def fetch_fallback_def fetch_catch_fallback_def toggle_fallback_def
      connect_fallback_def)

text \<open>
  togglePower_failure_keeps_vms (amended). When the POST of \<^verbatim>\<open>handleTogglePower\<close> fails, \<^verbatim>\<open>error\<close> is the
  message of the thrown value if that is not empty, else the per-VM fallback; the
  thrown message is the server's \<^verbatim>\<open>detail\<close>, the thrown error's own message (request
  rejected, body not parsable) or the per-VM fallback (no \<^verbatim>\<open>detail\<close>). No
  \<^verbatim>\<open>fetchVms\<close> request is issued and \<^verbatim>\<open>vms\<close> is left as it was.
\<close>

theorem togglePower_failure_keeps_vms:
  "(request_failed (r :: 'a fetched) \<longrightarrow>
      error (handleTogglePower n z st r refresh s)
        = Some (or_else (message (failure r (toggle_fallback n))) (toggle_fallback n))
      \<and> vms (handleTogglePower n z st r refresh s) = vms s
      \<and> filter is_refetch (new_events s (handleTogglePower n z st r refresh s)) = []
      \<and> filter is_Set_vms (new_events s (handleTogglePower n z st r refresh s)) = [])
   \<and> (map_of kvs ''detail'' = Some (JStr d) \<and> d \<noteq> [] \<longrightarrow>
        error (handleTogglePower n z st (Error_response (Parsed (JObj kvs)) :: 'a fetched) refresh s)
          = Some d)
   \<and> (message e \<noteq> [] \<longrightarrow>
        error (handleTogglePower n z st (Rejected e :: 'a fetched) refresh s) = Some (message e)
        \<and> error (handleTogglePower n z st (Error_response (Unparsable e) :: 'a fetched) refresh s)
            = Some (message e))
   \<and> (map_of kvs ''detail'' = None \<longrightarrow>
        error (handleTogglePower n z st (Error_response (Parsed (JObj kvs)) :: 'a fetched) refresh s)
          = Some (toggle_fallback n))"
  by (simp add: toggle_failed new_events_def not_ok_error_detail not_ok_error_no_detail
      not_ok_error_unparsable or_else_def fallbacks_not_empty)

theorem togglePower_failure_keeps_vms_witness:
  "request_failed (Error_response (Parsed (JObj [(''detail'', JStr ''quota'')])) :: unit fetched)
   \<and> error (handleTogglePower ''web-1'' ''us-1'' Running
              (Error_response (Parsed (JObj [(''detail'', JStr ''quota'')])) :: unit fetched)
              (Ok_response (Parsed [])) (initial_state\<lparr>vms := [web1, web2]\<rparr>)) = Some ''quota''
   \<and> vms (handleTogglePower ''web-1'' ''us-1'' Running
            (Error_response (Parsed (JObj [(''detail'', JStr ''quota'')])) :: unit fetched)
            (Ok_response (Parsed [])) (initial_state\<lparr>vms := [web1, web2]\<rparr>)) = [web1, web2]
   \<and> error (handleTogglePower ''web-1'' ''us-1'' Running
              (Rejected (Exn ''Failed to fetch'') :: unit fetched)
              (Ok_response (Parsed [])) (initial_state\<lparr>vms := [web1, web2]\<rparr>))
       = Some ''Failed to fetch''
   \<and> error (handleTogglePower ''web-1'' ''us-1'' Running
              (Error_response (Parsed (JObj [])) :: unit fetched)
              (Ok_response (Parsed [])) (initial_state\<lparr>vms := [web1, web2]\<rparr>))
       = Some (toggle_fallback ''web-1'')"
  using togglePower_failure_keeps_vms [of "Error_response (Parsed (JObj [(''detail'', JStr ''quota'')])) :: unit fetched"
        "''web-1''" "''us-1''" Running "Ok_response (Parsed [])"
        "initial_state\<lparr>vms := [web1, web2]\<rparr>" "[(''detail'', JStr ''quota'')]" "''quota''"
        "Exn ''Failed to fetch''"]
    togglePower_failure_keeps_vms [of "Rejected (Exn ''Failed to fetch'') :: unit fetched"
        "''web-1''" "''us-1''" Running "Ok_response (Parsed [])"
        "initial_state\<lparr>vms := [web1, web2]\<rparr>" "[]" "''x''" "Exn ''Failed to fetch''"]
  by (simp add: or_else_def not_ok_error_def)

text \<open>
  togglePower_failure_keeps_vms as stated fails: after a network failure the stored error is the message of the
  rejection, neither a server detail nor the per-VM fallback message.
\<close>

theorem togglePower_failure_keeps_vms_counterexample:
  "request_failed (Rejected (Exn ''Failed to fetch'') :: unit fetched)
   \<and> error (handleTogglePower ''web-1'' ''us-1'' Running
              (Rejected (Exn ''Failed to fetch'') :: unit fetched)
              (Ok_response (Parsed [])) (initial_state\<lparr>vms := [web1, web2]\<rparr>))
       = Some ''Failed to fetch''
   \<and> error (handleTogglePower ''web-1'' ''us-1'' Running
              (Rejected (Exn ''Failed to fetch'') :: unit fetched)
              (Ok_response (Parsed [])) (initial_state\<lparr>vms := [web1, web2]\<rparr>))
       \<noteq> Some (toggle_fallback ''web-1'')"
  by (simp add: toggle_failed or_else_def toggle_fallback_def)

text \<open>
  operations_clear_isLoading. Each of the three operations ends by setting \<^verbatim>\<open>isLoading\<close> to false, whatever
  the responses are: the last effect of each is the \<^verbatim>\<open>setIsLoading(false)\<close> of its
  \<^verbatim>\<open>finally\<close> block.
\<close>

theorem operations_clear_isLoading:
  "isLoading (fetchVms r s) = False
   \<and> last (events (fetchVms r s)) = Set_isLoading False
   \<and> isLoading (handleTogglePower n z st p refresh s) = False
   \<and> last (events (handleTogglePower n z st p refresh s)) = Set_isLoading False
   \<and> isLoading (handleConnect n z ip c s) = False
   \<and> last (events (handleConnect n z ip c s)) = Set_isLoading False"
  by (simp add: fetchVms_def handleTogglePower_def handleConnect_def Let_def setIsLoading_def emit_def
      split: prod.splits)

theorem operations_clear_isLoading_witness:
  "isLoading (fetchVms (Rejected (Exn ''Failed to fetch'')) (initial_state\<lparr>isLoading := True\<rparr>))
     = False
   \<and> isLoading (handleTogglePower ''web-1'' ''us-1'' Running (Ok_response (Parsed ()))
        (Ok_response (Parsed [web1])) (initial_state\<lparr>isLoading := True\<rparr>)) = False
   \<and> isLoading (handleConnect ''web-1'' ''us-1'' None (Ok_response (Parsed JNull))
        (initial_state\<lparr>isLoading := True\<rparr>)) = False"
  using operations_clear_isLoading [of "Rejected (Exn ''Failed to fetch'')"
      "initial_state\<lparr>isLoading := True\<rparr>" "''web-1''" "''us-1''" Running
      "Ok_response (Parsed ())" "Ok_response (Parsed [web1])" None "Ok_response (Parsed JNull)"]
  by simp

text \<open>
  handleConnect_keeps_vms. \<^verbatim>\<open>handleConnect\<close> never changes \<^verbatim>\<open>vms\<close>: it calls neither \<^verbatim>\<open>setVms\<close> nor
  \<^verbatim>\<open>fetchVms\<close> on any path. When the response is 2xx and carries the strings
  \<^verbatim>\<open>mensaje\<close> and \<^verbatim>\<open>comando_ssh\<close>, its only effects besides the request and the
  loading flag are the dialog with the two strings, and \<^verbatim>\<open>error\<close> stays empty. When
  the request fails, \<^verbatim>\<open>error\<close> is set to the message of the failure.
\<close>

theorem handleConnect_keeps_vms:
  "vms (handleConnect n z ip r s) = vms s
   \<and> filter is_Set_vms (new_events s (handleConnect n z ip r s)) = []
   \<and> filter is_refetch (new_events s (handleConnect n z ip r s)) = []
   \<and> (map_of kvs ''mensaje'' = Some (JStr m) \<and> map_of kvs ''comando_ssh'' = Some (JStr c) \<longrightarrow>
        new_events s (handleConnect n z ip (Ok_response (Parsed (JObj kvs))) s)
          = [Set_isLoading True, Set_error None, Fetch ''POST'' (connect_url n z ip),
             Alert (m @ [CHR 0x0A] @ ''Comando: '' @ c), Set_isLoading False]
        \<and> error (handleConnect n z ip (Ok_response (Parsed (JObj kvs))) s) = None)
   \<and> (request_failed r \<longrightarrow>
        error (handleConnect n z ip r s)
          = Some (or_else (message (failure r (connect_fallback n))) (connect_fallback n)))"
  using connect_frame [of n z ip r s]
  by (simp add: connect_answered connect_failed new_events_def)


theorem handleConnect_keeps_vms_witness:
  "request_failed (Error_response (Parsed (JObj [(''detail'', JStr ''VM stopped'')])) :: json fetched)
   \<and> error (handleConnect ''web-2'' ''us-2'' (Some ''34.1.2.3'')
        (Error_response (Parsed (JObj [(''detail'', JStr ''VM stopped'')])))
        (initial_state\<lparr>vms := [web1, web2]\<rparr>)) = Some ''VM stopped''
   \<and> vms (handleConnect ''web-2'' ''us-2'' (Some ''34.1.2.3'')
        (Error_response (Parsed (JObj [(''detail'', JStr ''VM stopped'')])))
        (initial_state\<lparr>vms := [web1, web2]\<rparr>)) = [web1, web2]
   \<and> filter is_Alert (new_events (initial_state\<lparr>vms := [web1, web2]\<rparr>)
        (handleConnect ''web-2'' ''us-2'' (Some ''34.1.2.3'')
           (Ok_response (Parsed (JObj [(''mensaje'', JStr ''Listo''),
                                       (''comando_ssh'', JStr ''ssh 34.1.2.3'')])))
           (initial_state\<lparr>vms := [web1, web2]\<rparr>)))
       = [Alert (''Listo'' @ [CHR 0x0A] @ ''Comando: ssh 34.1.2.3'')]"
  using handleConnect_keeps_vms [of "''web-2''" "''us-2''" "Some ''34.1.2.3''"
      "Error_response (Parsed (JObj [(''detail'', JStr ''VM stopped'')]))"
      "initial_state\<lparr>vms := [web1, web2]\<rparr>"
      "[(''mensaje'', JStr ''Listo''), (''comando_ssh'', JStr ''ssh 34.1.2.3'')]"
      "''Listo''" "''ssh 34.1.2.3''"]
  by (simp add: or_else_def not_ok_error_def)

text \<open>
  togglePower_acknowledges_failed_refresh. When the POST of \<^verbatim>\<open>handleTogglePower\<close> succeeds and the request of the
  refresh fails, the operation ends with \<^verbatim>\<open>vms\<close> empty and \<^verbatim>\<open>error\<close> set to the
  failure message of \<^verbatim>\<open>fetchVms\<close>, and the completion dialog is still shown, after
  the failed refresh.
\<close>

theorem togglePower_acknowledges_failed_refresh:
  "request_failed refresh \<longrightarrow>
     vms (handleTogglePower n z st (Ok_response b) refresh s) = []
     \<and> error (handleTogglePower n z st (Ok_response b) refresh s)
         = Some (or_else (message (failure refresh fetch_fallback)) fetch_catch_fallback)
     \<and> new_events s (handleTogglePower n z st (Ok_response b) refresh s)
         = [Set_isLoading True, Set_error None, Fetch ''POST'' (toggle_url n z st),
            Set_isLoading True, Set_error None, Fetch ''GET'' (API_BASE_URL @ ''/vms''),
            Console_error ''Error al obtener VMs:'' (failure refresh fetch_fallback),
            Set_error (Some (or_else (message (failure refresh fetch_fallback)) fetch_catch_fallback)),
            Set_vms [], Set_isLoading False,
            Alert (toggle_done_message n), Set_isLoading False]"
  by (simp add: toggle_ok fetchVms_failed setters new_events_def)

theorem togglePower_acknowledges_failed_refresh_witness:
  "request_failed (Error_response (Parsed (JObj [(''detail'', JStr ''boom'')])) :: VM list fetched)
   \<and> vms (handleTogglePower ''web-1'' ''us-1'' Running (Ok_response (Parsed ()))
            (Error_response (Parsed (JObj [(''detail'', JStr ''boom'')])))
            (initial_state\<lparr>vms := [web1, web2]\<rparr>)) = []
   \<and> error (handleTogglePower ''web-1'' ''us-1'' Running (Ok_response (Parsed ()))
            (Error_response (Parsed (JObj [(''detail'', JStr ''boom'')])))
            (initial_state\<lparr>vms := [web1, web2]\<rparr>)) = Some ''boom''
   \<and> filter is_Alert (new_events (initial_state\<lparr>vms := [web1, web2]\<rparr>)
        (handleTogglePower ''web-1'' ''us-1'' Running (Ok_response (Parsed ()))
            (Error_response (Parsed (JObj [(''detail'', JStr ''boom'')])))
            (initial_state\<lparr>vms := [web1, web2]\<rparr>))) = [Alert (toggle_done_message ''web-1'')]"
  using togglePower_acknowledges_failed_refresh [of "Error_response (Parsed (JObj [(''detail'', JStr ''boom'')]))"
        "''web-1''" "''us-1''" Running "Parsed ()" "initial_state\<lparr>vms := [web1, web2]\<rparr>"]
  by (simp add: not_ok_error_def or_else_def)

end
